theory Spec2Isabelle
  imports Complex_Main
begin

section \<open>The notebook's dataset wrapper\<close>

text \<open>
  The notebook \<^verbatim>\<open>0_basics.ipynb\<close> defines one class, \<^verbatim>\<open>CustomDataset\<close>, over two
  pandas tables, and three lines that split it into a train and a test part:
  \<^verbatim>\<open>
  class CustomDataset(Dataset):
      def __init__(self, targets_file, data_file, transform=None, target_transform=None):
          self.targets_file = pd.read_csv(targets_file)
          self.data_dir = pd.read_csv(data_file)
          self.transform = transform
          self.target_transform = target_transform

      def __len__(self):
          return len(self.targets_file)

      def __getitem__(self, idx):
          return self.data_dir.iloc[idx].to_numpy(dtype=np.float32), self.targets_file.iloc[idx].item()
  \<close>
  Everything else the class does is done by pandas and numpy. The model keeps the class
  as it is written and makes the library calls explicit: what is read from a file is a
  parameter, a row access that pandas refuses is an error value, and the conversion of a
  cell to a 32-bit float is a parameter that may fail.
\<close>

subsection \<open>Data\<close>

text \<open>
  A table as pandas holds it: the header's column names and the rows below it, a row
  being the list of its cells. The type of a cell is left open (pandas reads integers,
  floats, strings and missing values).
\<close>

record 'a DataFrame =
  columns :: "string list"
  rows :: "'a list list"

text \<open>A pandas table is rectangular: every row has one cell for each column.\<close>

definition rectangular :: "'a DataFrame \<Rightarrow> bool" where
  "rectangular df = list_all (\<lambda>r. length r = length (columns df)) (rows df)"

text \<open>\<^verbatim>\<open>df.shape\<close>: the number of rows, then the number of columns.\<close>

definition shape :: "'a DataFrame \<Rightarrow> nat \<times> nat" where
  "shape df = (length (rows df), length (columns df))"

text \<open>The exceptions that the calls of the notebook raise.\<close>

datatype error =
  FileNotFoundError | ParserError | EmptyDataError
  | IndexError | ValueError | AssertionError | OverflowError

text \<open>
  The object's four attributes, named as \<^verbatim>\<open>__init__\<close> names them: \<^verbatim>\<open>data_dir\<close> is
  the feature table, \<^verbatim>\<open>targets_file\<close> the label table. The two transforms are stored
  and never called.
\<close>

record ('a, 'h) CustomDataset =
  targets_file :: "'a DataFrame"
  data_dir :: "'a DataFrame"
  transform :: "'h option"
  target_transform :: "'h option"

subsection \<open>The library calls\<close>

text \<open>
  \<^verbatim>\<open>df.iloc[idx]\<close> for an integer \<^verbatim>\<open>idx\<close>: the row at that position, a negative
  position counting from the end; IndexError outside \<open>[-n, n)\<close>.
\<close>

definition iloc :: "'a DataFrame \<Rightarrow> int \<Rightarrow> error + 'a list" where
  "iloc df idx =
     (let n = int (length (rows df)) in
      if idx < - n \<or> n \<le> idx then Inl IndexError
      else Inr (rows df ! nat (if idx < 0 then n + idx else idx)))"

text \<open>
  \<^verbatim>\<open>row.to_numpy(dtype=np.float32)\<close>: every cell converted in turn; a cell that has no
  float value (a string that is not a number) raises ValueError. The conversion of one
  cell is the parameter \<open>float32\<close>.
\<close>

fun to_numpy :: "('a \<Rightarrow> 'f option) \<Rightarrow> 'a list \<Rightarrow> error + 'f list" where
  "to_numpy float32 [] = Inr []"
| "to_numpy float32 (c # cs) =
     (case float32 c of
        None \<Rightarrow> Inl ValueError
      | Some v \<Rightarrow>
          (case to_numpy float32 cs of
             Inl e \<Rightarrow> Inl e
           | Inr vs \<Rightarrow> Inr (v # vs)))"

text \<open>
  \<^verbatim>\<open>row.item()\<close>: the only cell of a row of one cell; ValueError for a row of any
  other size.
\<close>

fun item :: "'a list \<Rightarrow> error + 'a" where
  "item [c] = Inr c"
| "item cs = Inl ValueError"

subsection \<open>The class\<close>

text \<open>
  \<^verbatim>\<open>__init__\<close>: the label file is read first, then the feature file; an exception of
  \<^verbatim>\<open>pd.read_csv\<close> leaves no object. Nothing else is checked. \<open>read_csv\<close> stands for
  \<^verbatim>\<open>pd.read_csv\<close> on the files as they are when the object is made.
\<close>

definition init ::
  "(string \<Rightarrow> error + 'a DataFrame) \<Rightarrow> string \<Rightarrow> string \<Rightarrow> 'h option \<Rightarrow> 'h option
     \<Rightarrow> error + ('a, 'h) CustomDataset" where
  "init read_csv targets_path data_path tr target_tr =
     (case read_csv targets_path of
        Inl e \<Rightarrow> Inl e
      | Inr t \<Rightarrow>
          (case read_csv data_path of
             Inl e \<Rightarrow> Inl e
           | Inr d \<Rightarrow>
               Inr \<lparr>targets_file = t, data_dir = d,
                    transform = tr, target_transform = target_tr\<rparr>))"

text \<open>\<^verbatim>\<open>__len__\<close>: \<^verbatim>\<open>len(self.targets_file)\<close>, the number of rows of the label table.\<close>

definition len :: "('a, 'h) CustomDataset \<Rightarrow> nat" where
  "len self = length (rows (targets_file self))"

text \<open>
  \<^verbatim>\<open>__getitem__\<close>: the tuple is built from left to right, so the feature row is taken
  and converted before the label table is touched.
\<close>

definition getitem ::
  "('a \<Rightarrow> 'f option) \<Rightarrow> ('a, 'h) CustomDataset \<Rightarrow> int \<Rightarrow> error + ('f list \<times> 'a)" where
  "getitem float32 self idx =
     (case iloc (data_dir self) idx of
        Inl e \<Rightarrow> Inl e
      | Inr r \<Rightarrow>
          (case to_numpy float32 r of
             Inl e \<Rightarrow> Inl e
           | Inr v \<Rightarrow>
               (case iloc (targets_file self) idx of
                  Inl e \<Rightarrow> Inl e
                | Inr t \<Rightarrow>
                    (case item t of
                       Inl e \<Rightarrow> Inl e
                     | Inr l \<Rightarrow> Inr (v, l)))))"

subsection \<open>The methods as actions on the object\<close>

text \<open>
  A method body, statement by statement, as an action on the object: it gives a result
  or an exception, and the object as it leaves it. An action reads an attribute
  (\<^verbatim>\<open>self.name\<close>), assigns to one (\<^verbatim>\<open>self.name = ...\<close>), takes the outcome of a
  library call that does not touch the object, or returns; an exception ends the body.
\<close>

type_synonym ('s, 'r) action = "'s \<Rightarrow> (error + 'r) \<times> 's"

definition returns :: "'r \<Rightarrow> ('s, 'r) action" where
  "returns x s = (Inr x, s)"

definition library :: "error + 'r \<Rightarrow> ('s, 'r) action" where
  "library outcome s = (outcome, s)"

definition attribute :: "('s \<Rightarrow> 'r) \<Rightarrow> ('s, 'r) action" where
  "attribute name s = (Inr (name s), s)"

definition assign :: "('s \<Rightarrow> 's) \<Rightarrow> ('s, unit) action" where
  "assign update s = (Inr (), update s)"

definition and_then :: "('s, 'q) action \<Rightarrow> ('q \<Rightarrow> ('s, 'r) action) \<Rightarrow> ('s, 'r) action" where
  "and_then m k s =
     (case m s of
        (Inl e, s') \<Rightarrow> (Inl e, s')
      | (Inr x, s') \<Rightarrow> k x s')"

text \<open>\<^verbatim>\<open>__init__\<close>: four assignments, each file read just before its table is stored.\<close>

definition init_m ::
  "(string \<Rightarrow> error + 'a DataFrame) \<Rightarrow> string \<Rightarrow> string \<Rightarrow> 'h option \<Rightarrow> 'h option
     \<Rightarrow> (('a, 'h) CustomDataset, unit) action" where
  "init_m read_csv targets_path data_path tr target_tr =
     and_then (library (read_csv targets_path)) (\<lambda>t.
     and_then (assign (\<lambda>self. self\<lparr>targets_file := t\<rparr>)) (\<lambda>_.
     and_then (library (read_csv data_path)) (\<lambda>d.
     and_then (assign (\<lambda>self. self\<lparr>data_dir := d\<rparr>)) (\<lambda>_.
     and_then (assign (\<lambda>self. self\<lparr>transform := tr\<rparr>)) (\<lambda>_.
     assign (\<lambda>self. self\<lparr>target_transform := target_tr\<rparr>))))))"

text \<open>\<^verbatim>\<open>__len__\<close>: one attribute read.\<close>

definition len_m :: "(('a, 'h) CustomDataset, nat) action" where
  "len_m = and_then (attribute targets_file) (\<lambda>t. returns (length (rows t)))"

text \<open>\<^verbatim>\<open>__getitem__\<close>: two attribute reads and four library calls, from left to right.\<close>

definition getitem_m ::
  "('a \<Rightarrow> 'f option) \<Rightarrow> int \<Rightarrow> (('a, 'h) CustomDataset, 'f list \<times> 'a) action" where
  "getitem_m float32 idx =
     and_then (attribute data_dir) (\<lambda>d.
     and_then (library (iloc d idx)) (\<lambda>r.
     and_then (library (to_numpy float32 r)) (\<lambda>v.
     and_then (attribute targets_file) (\<lambda>t.
     and_then (library (iloc t idx)) (\<lambda>lr.
     and_then (library (item lr)) (\<lambda>l.
     returns (v, l)))))))"

text \<open>
  A caller's sequence of calls of the two methods, each on the object as the call
  before left it, an exception being caught and kept as that call's outcome.
\<close>

datatype call = Len | GetItem int

datatype ('f, 'a) reply = Size nat | Item "'f list \<times> 'a"

definition call_method ::
  "('a \<Rightarrow> 'f option) \<Rightarrow> call \<Rightarrow> (('a, 'h) CustomDataset, ('f, 'a) reply) action" where
  "call_method float32 c =
     (case c of
        Len \<Rightarrow> and_then len_m (\<lambda>n. returns (Size n))
      | GetItem idx \<Rightarrow> and_then (getitem_m float32 idx) (\<lambda>r. returns (Item r)))"

fun run ::
  "('a \<Rightarrow> 'f option) \<Rightarrow> call list \<Rightarrow> ('a, 'h) CustomDataset
     \<Rightarrow> (error + ('f, 'a) reply) list \<times> ('a, 'h) CustomDataset" where
  "run float32 [] self = ([], self)"
| "run float32 (c # cs) self =
     (case call_method float32 c self of
        (r, self') \<Rightarrow>
          (case run float32 cs self' of
             (rs, self'') \<Rightarrow> (r # rs, self'')))"

subsection \<open>The notebook's cells\<close>

text \<open>
  Before the tables are written to the two files, the notebook compares their numbers
  of rows: \<^verbatim>\<open>assert(x.shape[0] == y.shape[0])\<close>.
\<close>

definition check_rows :: "'a DataFrame \<Rightarrow> 'b DataFrame \<Rightarrow> error + unit" where
  "check_rows x y =
     (if fst (shape x) = fst (shape y) then Inr () else Inl AssertionError)"

subsubsection \<open>The tables written and read again\<close>




subsubsection \<open>The split\<close>

text \<open>
  \<^verbatim>\<open>0.8 * len(dataset)\<close> is a product of doubles. A double with 53 significant bits
  is kept here by an integer numerator: \<open>excess k\<close> is the number of bits that \<open>k\<close> has
  beyond 53, and \<open>round53 k\<close> is \<open>k\<close> rounded to 53 significant bits, to the nearest,
  a tie to the even one.
\<close>

fun excess :: "nat \<Rightarrow> nat" where
  "excess k = (if k < 2 ^ 53 then 0 else Suc (excess (k div 2)))"

definition round53 :: "nat \<Rightarrow> nat" where
  "round53 k =
     (let s = excess k; q = k div 2 ^ s; r = k mod 2 ^ s in
      if 2 * r < 2 ^ s \<or> (2 * r = 2 ^ s \<and> even q) then q * 2 ^ s
      else (q + 1) * 2 ^ s)"

text \<open>
  The length as a double, for the product: the nearest double, and OverflowError when
  that would be \<open>2 ^ 1024\<close> or more.
\<close>

definition float_of_int :: "nat \<Rightarrow> error + nat" where
  "float_of_int n = (if 2 ^ 1024 \<le> round53 n then Inl OverflowError else Inr (round53 n))"

text \<open>
  \<^verbatim>\<open>train_size = int(0.8 * len(dataset))\<close>. The literal \<^verbatim>\<open>0.8\<close> is the double
  \<open>3602879701896397 / 2 ^ 52\<close>; the product of it and the double \<open>m\<close> is
  \<open>3602879701896397 * m / 2 ^ 52\<close> rounded to a double, which is
  \<open>round53 (3602879701896397 * m) / 2 ^ 52\<close>; \<^verbatim>\<open>int\<close> drops the fraction.
\<close>

definition train_size :: "nat \<Rightarrow> error + nat" where
  "train_size n =
     (case float_of_int n of
        Inl e \<Rightarrow> Inl e
      | Inr m \<Rightarrow> Inr (round53 (3602879701896397 * m) div 2 ^ 52))"

text \<open>
  Modelled from the spec: \<^verbatim>\<open>torch.utils.data.random_split\<close>, the train/test splitter,
  a library routine whose code is not among the sources. The spec has it partition the
  index range into two disjoint, exhaustive index subsets of the two sizes it is given.
  The model draws them from a random order of the indices, the parameter \<open>perm\<close>: the
  first subset is its first \<open>n1\<close> entries, the second the \<open>n2\<close> entries after them.
\<close>

definition random_split :: "nat list \<Rightarrow> int \<Rightarrow> int \<Rightarrow> nat list \<times> nat list" where
  "random_split perm n1 n2 = (take (nat n1) perm, take (nat n2) (drop (nat n1) perm))"

text \<open>
  The cell that splits the dataset:
  \<^verbatim>\<open>
  train_size = int(0.8 * len(dataset))
  test_size = len(dataset) - train_size
  train_dataset, test_dataset = torch.utils.data.random_split(dataset, [train_size, test_size])
  \<close>
\<close>

definition train_test_split ::
  "nat list \<Rightarrow> ('a, 'h) CustomDataset \<Rightarrow> error + nat list \<times> nat list" where
  "train_test_split perm dataset =
     (case train_size (len dataset) of
        Inl e \<Rightarrow> Inl e
      | Inr n1 \<Rightarrow>
          (let test_size = int (len dataset) - int n1
           in Inr (random_split perm (int n1) test_size)))"

subsection \<open>Example tables\<close>

text \<open>The first rows of the Iris tables, as the notebook prints them.\<close>

definition iris_columns :: "string list" where
  "iris_columns = [''sepal length'', ''sepal width'', ''petal length'', ''petal width'']"

definition iris_x3 :: "real DataFrame" where
  "iris_x3 = \<lparr>columns = iris_columns,
     rows = [[5.1, 3.5, 1.4, 0.2], [4.9, 3.0, 1.4, 0.2], [4.7, 3.2, 1.3, 0.2]]\<rparr>"

definition iris_y3 :: "real DataFrame" where
  "iris_y3 = \<lparr>columns = [''class''], rows = [[0], [0], [0]]\<rparr>"

definition iris_y2 :: "real DataFrame" where
  "iris_y2 = \<lparr>columns = [''class''], rows = [[0], [0]]\<rparr>"

definition iris_x1 :: "real DataFrame" where
  "iris_x1 = \<lparr>columns = iris_columns, rows = [[5.1, 3.5, 1.4, 0.2]]\<rparr>"

text \<open>Tables of the size of the Iris data: 150 rows, the first row as above.\<close>

definition iris_x150 :: "real DataFrame" where
  "iris_x150 = \<lparr>columns = iris_columns,
     rows = [5.1, 3.5, 1.4, 0.2] # replicate 149 [4.9, 3.0, 1.4, 0.2]\<rparr>"

definition iris_y150 :: "real DataFrame" where
  "iris_y150 = \<lparr>columns = [''class''],
     rows = replicate 50 [0] @ replicate 50 [1] @ replicate 50 [2]\<rparr>"

text \<open>A directory of files, each given by the table that is read from it.\<close>

definition files :: "string \<Rightarrow> error + real DataFrame" where
  "files path =
     (if path = ''data.csv'' then Inr iris_x3
      else if path = ''targets.csv'' then Inr iris_y3
      else if path = ''short.csv'' then Inr iris_y2
      else if path = ''head.csv'' then Inr iris_x1
      else if path = ''Iris/data.csv'' then Inr iris_x150
      else if path = ''Iris/targets.csv'' then Inr iris_y150
      else Inl FileNotFoundError)"

text \<open>The objects made from them.\<close>

definition iris3 :: "(real, unit) CustomDataset" where
  "iris3 = \<lparr>targets_file = iris_y3, data_dir = iris_x3,
     transform = None, target_transform = None\<rparr>"

definition iris_short :: "(real, unit) CustomDataset" where
  "iris_short = \<lparr>targets_file = iris_y2, data_dir = iris_x3,
     transform = None, target_transform = None\<rparr>"

definition iris_long :: "(real, unit) CustomDataset" where
  "iris_long = \<lparr>targets_file = iris_y3, data_dir = iris_x1,
     transform = None, target_transform = None\<rparr>"

definition iris150 :: "(real, unit) CustomDataset" where
  "iris150 = \<lparr>targets_file = iris_y150, data_dir = iris_x150,
     transform = None, target_transform = None\<rparr>"

text \<open>A label table of \<open>2 ^ 51 + 3\<close> rows, with a feature table of as many.\<close>

definition iris_big :: "(real, unit) CustomDataset" where
  "iris_big =
     \<lparr>targets_file = \<lparr>columns = [''class''], rows = replicate 2251799813685251 [0]\<rparr>,
      data_dir = \<lparr>columns = iris_columns,
        rows = replicate 2251799813685251 [5.1, 3.5, 1.4, 0.2]\<rparr>,
      transform = None, target_transform = None\<rparr>"




text \<open>A conversion that accepts no cell.\<close>

definition refuse :: "real \<Rightarrow> real option" where
  "refuse c = None"

text \<open>One order of the first \<open>n\<close> indices: the last index first.\<close>

definition reversed :: "nat \<Rightarrow> nat list" where
  "reversed n = rev [0..<n]"

section \<open>Properties\<close>

subsection \<open>Basic facts\<close>

lemma init_tables:
  assumes "init read_csv tp dp tr ttr = Inr ds"
  shows "read_csv tp = Inr (targets_file ds) \<and> read_csv dp = Inr (data_dir ds)"
  using assms by (auto simp: init_def split: sum.splits)

text \<open>
  C9. The size is taken from the label table alone: whatever the two files hold, also
  with different numbers of rows, the object is made and its size is the number of rows
  of the label file.
\<close>

theorem len_is_label_rows:
  assumes "read_csv tp = Inr t" and "read_csv dp = Inr d"
  shows "\<exists>ds. init read_csv tp dp tr ttr = Inr ds \<and> len ds = length (rows t)"
  using assms by (simp add: init_def len_def)

theorem len_is_label_rows_witness:
  "\<exists>ds. init files ''short.csv'' ''data.csv'' (None :: unit option) None = Inr ds
     \<and> len ds = length (rows iris_y2)
     \<and> length (rows iris_y2) = 2 \<and> length (rows iris_x3) = 3"
proof -
  have t: "files ''short.csv'' = Inr iris_y2" by (simp add: files_def)
  have d: "files ''data.csv'' = Inr iris_x3" by (simp add: files_def)
  have "length (rows iris_y2) = 2 \<and> length (rows iris_x3) = 3"
    by (simp add: iris_y2_def iris_x3_def)
  with len_is_label_rows [OF t d, of None None] show ?thesis by blast
qed

subsection \<open>Row access\<close>

lemma iloc_out_of_range:
  "idx < - int (length (rows df)) \<or> int (length (rows df)) \<le> idx \<Longrightarrow>
   iloc df idx = Inl IndexError"
  by (simp add: iloc_def)

lemma iloc_in_range:
  "0 \<le> idx \<Longrightarrow> idx < int (length (rows df)) \<Longrightarrow> iloc df idx = Inr (rows df ! nat idx)"
  by (simp add: iloc_def)

lemma iloc_negative:
  "- int (length (rows df)) \<le> idx \<Longrightarrow> idx < 0 \<Longrightarrow>
   iloc df idx = Inr (rows df ! nat (int (length (rows df)) + idx))"
  by (simp add: iloc_def)

lemma iloc_errors: "iloc df idx = Inl e \<Longrightarrow> e = IndexError"
  by (auto simp: iloc_def Let_def split: if_splits)

lemma iloc_row_in_table: "iloc df idx = Inr r \<Longrightarrow> r \<in> set (rows df)"
  by (auto simp: iloc_def Let_def split: if_splits)

lemma to_numpy_length: "to_numpy f r = Inr v \<Longrightarrow> length v = length r"
  by (induction r arbitrary: v) (auto split: option.splits sum.splits)

lemma to_numpy_errors: "to_numpy f r = Inl e \<Longrightarrow> e = ValueError"
  by (induction r) (auto split: option.splits sum.splits)

lemma to_numpy_Some: "to_numpy Some r = Inr r"
  by (induction r) auto

lemma item_errors: "item r = Inl e \<Longrightarrow> e = ValueError"
  by (cases r rule: item.cases) auto

subsection \<open>Construction\<close>

text \<open>
  C1, as the code has it. \<^verbatim>\<open>__init__\<close> compares nothing: whenever both files can be
  read, also with different numbers of rows, the object is made and holds the two tables
  as they were read. The numbers of rows are compared by the notebook's assertion on the
  tables in memory, before they are written, and a difference there is an
  AssertionError.
\<close>

theorem init_checks_nothing:
  assumes "read_csv tp = Inr t" and "read_csv dp = Inr d"
  shows "init read_csv tp dp tr ttr =
           Inr \<lparr>targets_file = t, data_dir = d, transform = tr, target_transform = ttr\<rparr>
         \<and> (check_rows x y = Inl AssertionError) = (length (rows x) \<noteq> length (rows y))"
  using assms by (simp add: init_def check_rows_def shape_def)

theorem init_checks_nothing_witness:
  "init files ''short.csv'' ''data.csv'' None None = Inr iris_short
   \<and> (check_rows iris_x3 iris_y2 = Inl AssertionError)
   \<and> length (rows iris_x3) \<noteq> length (rows iris_y2)"
proof -
  have t: "files ''short.csv'' = Inr iris_y2" by (simp add: files_def)
  have d: "files ''data.csv'' = Inr iris_x3" by (simp add: files_def)
  have n: "length (rows iris_x3) \<noteq> length (rows iris_y2)"
    by (simp add: iris_x3_def iris_y2_def)
  from init_checks_nothing [OF t d, of None None iris_x3 iris_y2] n
  show ?thesis by (simp add: iris_short_def)
qed

text \<open>
  The claim as it is written fails: the feature file has three rows and the label file
  two, and the object is made and answers.
\<close>

theorem init_mismatch_counterexample:
  "init files ''short.csv'' ''data.csv'' None None = Inr iris_short
   \<and> length (rows (data_dir iris_short)) = 3
   \<and> length (rows (targets_file iris_short)) = 2
   \<and> getitem Some iris_short 0 = Inr ([5.1, 3.5, 1.4, 0.2], 0)"
  by (simp add: init_def files_def iris_short_def iris_x3_def iris_y2_def
      getitem_def iloc_def)

text \<open>
  C3, as the code has it. For an object made from two files with the same number of
  rows, the size is the number of rows of the label file and of the feature file. (With
  different numbers of rows the object is made all the same, and its size is that of the
  label file.)
\<close>

theorem len_of_equal_files:
  assumes "init read_csv tp dp tr ttr = Inr ds"
    and "read_csv tp = Inr t" and "read_csv dp = Inr d"
    and "length (rows t) = length (rows d)"
  shows "len ds = length (rows t) \<and> len ds = length (rows d)"
  using assms by (auto simp: init_def len_def)

theorem len_of_equal_files_witness:
  "init files ''targets.csv'' ''data.csv'' None None = Inr iris3
   \<and> len iris3 = length (rows iris_y3) \<and> len iris3 = length (rows iris_x3)
   \<and> len iris3 = 3"
proof -
  have i: "init files ''targets.csv'' ''data.csv'' None None = Inr iris3"
    by (simp add: init_def files_def iris3_def)
  have t: "files ''targets.csv'' = Inr iris_y3" by (simp add: files_def)
  have d: "files ''data.csv'' = Inr iris_x3" by (simp add: files_def)
  have n: "length (rows iris_y3) = length (rows iris_x3)"
    by (simp add: iris_y3_def iris_x3_def)
  have "length (rows iris_y3) = 3" by (simp add: iris_y3_def)
  with i len_of_equal_files [OF i t d n] show ?thesis by simp
qed

text \<open>
  The claim as it is written fails: made from a feature file of one row and a label file
  of three, the object has size 3.
\<close>

theorem len_mismatch_counterexample:
  "init files ''targets.csv'' ''head.csv'' None None = Inr iris_long
   \<and> len iris_long = 3
   \<and> length (rows (data_dir iris_long)) = 1"
  by (simp add: init_def files_def iris_long_def iris_x1_def iris_y3_def len_def)

subsection \<open>Indexing\<close>

lemma getitem_errors:
  "getitem f ds idx = Inl e \<Longrightarrow> e = IndexError \<or> e = ValueError"
  by (auto simp: getitem_def split: sum.splits
      dest: iloc_errors to_numpy_errors item_errors)

lemma getitem_in_range:
  assumes "0 \<le> idx" and "idx < int (len ds)"
    and "length (rows (data_dir ds)) = len ds"
    and "to_numpy f (rows (data_dir ds) ! nat idx) = Inr v"
    and "rows (targets_file ds) ! nat idx = [l]"
  shows "getitem f ds idx = Inr (v, l)"
proof -
  have "iloc (data_dir ds) idx = Inr (rows (data_dir ds) ! nat idx)"
    using assms(1,2,3) by (simp add: iloc_in_range)
  moreover have "iloc (targets_file ds) idx = Inr [l]"
    using assms(1,2,5) by (simp add: iloc_in_range len_def)
  ultimately show ?thesis
    using assms(4) by (simp add: getitem_def)
qed

text \<open>
  C2, as the code has it. An index at or above the size, or below minus the size, gives
  no record. The call raises a ValueError when the feature table has a row at that
  position (counted from the end for a negative index) and that row does not convert,
  and an IndexError in every other case; so it raises an IndexError whenever the feature
  table has as many rows as the label table.
\<close>

theorem getitem_out_of_range:
  assumes "idx < - int (len ds) \<or> int (len ds) \<le> idx"
  shows "getitem f ds idx =
           (case iloc (data_dir ds) idx of
              Inl e \<Rightarrow> Inl IndexError
            | Inr r \<Rightarrow>
                (case to_numpy f r of
                   Inl e \<Rightarrow> Inl ValueError
                 | Inr v \<Rightarrow> Inl IndexError))
         \<and> (length (rows (data_dir ds)) = len ds \<longrightarrow> getitem f ds idx = Inl IndexError)"
proof -
  have labels: "iloc (targets_file ds) idx = Inl IndexError"
    using assms by (simp add: iloc_out_of_range len_def)
  have exact: "getitem f ds idx =
      (case iloc (data_dir ds) idx of
         Inl e \<Rightarrow> Inl IndexError
       | Inr r \<Rightarrow>
           (case to_numpy f r of
              Inl e \<Rightarrow> Inl ValueError
            | Inr v \<Rightarrow> Inl IndexError))"
    by (auto simp: getitem_def labels split: sum.splits
        dest: iloc_errors to_numpy_errors)
  have equal_rows: "getitem f ds idx = Inl IndexError"
    if "length (rows (data_dir ds)) = len ds"
  proof -
    have "iloc (data_dir ds) idx = Inl IndexError"
      using assms that by (simp add: iloc_out_of_range)
    then show ?thesis by (simp add: getitem_def)
  qed
  from exact equal_rows show ?thesis by blast
qed

theorem getitem_out_of_range_witness:
  "len iris3 = 3 \<and> len iris_short = 2
   \<and> getitem Some iris3 3 = Inl IndexError
   \<and> getitem Some iris3 (- 4) = Inl IndexError
   \<and> getitem Some iris_short 2 = Inl IndexError
   \<and> getitem refuse iris_short 2 = Inl ValueError
   \<and> getitem refuse iris_short 3 = Inl IndexError"
proof -
  have n: "len iris3 = 3" "length (rows (data_dir iris3)) = len iris3"
    by (simp_all add: len_def iris3_def iris_y3_def iris_x3_def)
  have m: "len iris_short = 2"
    by (simp add: len_def iris_short_def iris_y2_def)
  have a: "(3::int) < - int (len iris3) \<or> int (len iris3) \<le> 3" using n by simp
  have b: "(- 4::int) < - int (len iris3) \<or> int (len iris3) \<le> - 4" using n by simp
  have c: "(2::int) < - int (len iris_short) \<or> int (len iris_short) \<le> 2" using m by simp
  have d: "(3::int) < - int (len iris_short) \<or> int (len iris_short) \<le> 3" using m by simp
  have x2: "iloc (data_dir iris_short) 2 = Inr [4.7, 3.2, 1.3, 0.2]"
    by (simp add: iloc_def iris_short_def iris_x3_def)
  have x3: "iloc (data_dir iris_short) 3 = Inl IndexError"
    by (simp add: iloc_def iris_short_def iris_x3_def)
  have "getitem Some iris3 3 = Inl IndexError"
    using getitem_out_of_range [OF a, of Some] n by blast
  moreover have "getitem Some iris3 (- 4) = Inl IndexError"
    using getitem_out_of_range [OF b, of Some] n by blast
  moreover have "getitem Some iris_short 2 = Inl IndexError"
    using getitem_out_of_range [OF c, of Some] by (simp add: x2)
  moreover have "getitem refuse iris_short 2 = Inl ValueError"
    using getitem_out_of_range [OF c, of refuse] by (simp add: x2 refuse_def)
  moreover have "getitem refuse iris_short 3 = Inl IndexError"
    using getitem_out_of_range [OF d, of refuse] by (simp add: x3)
  ultimately show ?thesis using n(1) m by blast
qed

text \<open>
  The claim as it is written fails at a negative index: on the object of three records,
  index \<open>-1\<close> is outside \<open>[0, 3)\<close> and the call returns the last record.
\<close>

theorem getitem_negative_counterexample:
  "init files ''targets.csv'' ''data.csv'' None None = Inr iris3
   \<and> len iris3 = 3
   \<and> getitem Some iris3 (- 1) = Inr ([4.7, 3.2, 1.3, 0.2], 0)"
  by (simp add: init_def files_def iris3_def iris_x3_def iris_y3_def len_def
      getitem_def iloc_def)

text \<open>
  C10, as the code has it. When the feature table has as many rows as the label table,
  \<open>N > 0\<close> of them, a negative index \<open>k\<close> in \<open>[-N, 0)\<close> raises no IndexError and is
  answered as the index \<open>N + k\<close> is: when the feature row at \<open>N + k\<close> converts and the
  label row there has one cell, the call returns the record at position \<open>N + k\<close>.
\<close>

theorem getitem_negative_index:
  assumes "length (rows (data_dir ds)) = len ds"
    and "- int (len ds) \<le> k" and "k < 0"
  shows "getitem f ds k = getitem f ds (int (len ds) + k)
         \<and> getitem f ds k \<noteq> Inl IndexError
         \<and> (\<forall>v l. to_numpy f (rows (data_dir ds) ! nat (int (len ds) + k)) = Inr v
                \<longrightarrow> rows (targets_file ds) ! nat (int (len ds) + k) = [l]
                \<longrightarrow> getitem f ds k = Inr (v, l))"
proof -
  let ?p = "nat (int (len ds) + k)"
  have xk: "iloc (data_dir ds) k = Inr (rows (data_dir ds) ! ?p)"
    using assms by (simp add: iloc_negative)
  have yk: "iloc (targets_file ds) k = Inr (rows (targets_file ds) ! ?p)"
    using assms by (simp add: iloc_negative len_def)
  have xp: "iloc (data_dir ds) (int (len ds) + k) = Inr (rows (data_dir ds) ! ?p)"
    using assms by (simp add: iloc_in_range)
  have yp: "iloc (targets_file ds) (int (len ds) + k) = Inr (rows (targets_file ds) ! ?p)"
    using assms by (simp add: iloc_in_range len_def)
  have same: "getitem f ds k = getitem f ds (int (len ds) + k)"
    by (simp add: getitem_def xk yk xp yp split: sum.splits)
  have no_index_error: "getitem f ds k \<noteq> Inl IndexError"
    by (auto simp: getitem_def xk yk split: sum.splits
        dest: to_numpy_errors item_errors)
  have returned: "getitem f ds k = Inr (v, l)"
    if "to_numpy f (rows (data_dir ds) ! ?p) = Inr v"
      and "rows (targets_file ds) ! ?p = [l]" for v l
    using that by (simp add: getitem_def xk yk split: sum.splits)
  from same no_index_error returned show ?thesis by blast
qed

theorem getitem_negative_index_witness:
  "len iris3 = 3
   \<and> getitem Some iris3 (- 2) = getitem Some iris3 1
   \<and> getitem Some iris3 (- 2) = Inr ([4.9, 3.0, 1.4, 0.2], 0)"
proof -
  have n: "len iris3 = 3" "length (rows (data_dir iris3)) = len iris3"
    by (simp_all add: len_def iris3_def iris_y3_def iris_x3_def)
  have lo: "- int (len iris3) \<le> - 2" using n by simp
  have p: "nat (int (len iris3) + (- 2)) = 1" using n by simp
  have x: "to_numpy Some (rows (data_dir iris3) ! nat (int (len iris3) + (- 2)))
             = Inr [4.9, 3.0, 1.4, 0.2]"
    unfolding p by (simp add: iris3_def iris_x3_def)
  have y: "rows (targets_file iris3) ! nat (int (len iris3) + (- 2)) = [0]"
    unfolding p by (simp add: iris3_def iris_y3_def)
  have neg: "(- 2 :: int) < 0" by simp
  note th = getitem_negative_index [OF n(2) lo neg, of Some]
  from th x y have r: "getitem Some iris3 (- 2) = Inr ([4.9, 3.0, 1.4, 0.2], 0)"
    by blast
  from th have "getitem Some iris3 (- 2) = getitem Some iris3 (int (len iris3) + (- 2))"
    by blast
  then have s: "getitem Some iris3 (- 2) = getitem Some iris3 1"
    by (simp only: n(1)) simp
  from n(1) s r show ?thesis by blast
qed

text \<open>
  The claim as it is written fails: the object made from a feature file of one row and a
  label file of three has size 3, and index \<open>-2\<close> raises an IndexError.
\<close>

theorem getitem_negative_raises_counterexample:
  "init files ''targets.csv'' ''head.csv'' None None = Inr iris_long
   \<and> len iris_long = 3
   \<and> getitem Some iris_long (- 2) = Inl IndexError"
  by (simp add: init_def files_def iris_long_def iris_x1_def iris_y3_def len_def
      getitem_def iloc_def)

text \<open>
  C4. The feature vectors that the calls return all have one length, the number of
  columns of the feature table.
\<close>

theorem getitem_vector_length:
  assumes "rectangular (data_dir ds)"
    and "getitem f ds i = Inr (v, a)" and "getitem f ds j = Inr (w, b)"
  shows "length v = length (columns (data_dir ds)) \<and> length w = length v"
proof -
  have one: "length u = length (columns (data_dir ds))"
    if "getitem f ds idx = Inr (u, c)" for idx u c
  proof -
    from that obtain r where r: "iloc (data_dir ds) idx = Inr r" "to_numpy f r = Inr u"
      by (auto simp: getitem_def split: sum.splits)
    from r(1) have "r \<in> set (rows (data_dir ds))" by (rule iloc_row_in_table)
    with assms(1) have "length r = length (columns (data_dir ds))"
      by (simp add: rectangular_def list_all_iff)
    with to_numpy_length [OF r(2)] show ?thesis by simp
  qed
  from one [OF assms(2)] one [OF assms(3)] show ?thesis by simp
qed

theorem getitem_vector_length_witness:
  "rectangular (data_dir iris3)
   \<and> getitem Some iris3 0 = Inr ([5.1, 3.5, 1.4, 0.2], 0)
   \<and> getitem Some iris3 2 = Inr ([4.7, 3.2, 1.3, 0.2], 0)
   \<and> length [5.1, 3.5, 1.4, 0.2 :: real] = length (columns (data_dir iris3))
   \<and> length [4.7, 3.2, 1.3, 0.2 :: real] = length [5.1, 3.5, 1.4, 0.2 :: real]"
proof -
  have r: "rectangular (data_dir iris3)"
    by (simp add: rectangular_def iris3_def iris_x3_def iris_columns_def)
  have i: "getitem Some iris3 0 = Inr ([5.1, 3.5, 1.4, 0.2], 0)"
    by (simp add: getitem_def iloc_def iris3_def iris_x3_def iris_y3_def)
  have j: "getitem Some iris3 2 = Inr ([4.7, 3.2, 1.3, 0.2], 0)"
    by (simp add: getitem_def iloc_def iris3_def iris_x3_def iris_y3_def)
  from getitem_vector_length [OF r i j] r i j show ?thesis by simp
qed

text \<open>
  C6. From a feature file of 150 rows and 4 columns whose first row is 5.1, 3.5, 1.4, 0.2
  and a label file of 150 rows and one column whose first label is 0, the object is
  made, its size is 150, and index 0 gives that first row, converted, with the label 0.
\<close>

theorem iris_end_to_end:
  fixes d t :: "real DataFrame"
  assumes "read_csv dp = Inr d" and "read_csv tp = Inr t"
    and "shape d = (150, 4)" and "shape t = (150, 1)"
    and "rows d ! 0 = [5.1, 3.5, 1.4, 0.2]" and "rows t ! 0 = [0]"
    and "to_numpy float32 [5.1, 3.5, 1.4, 0.2] = Inr v"
  shows "\<exists>ds. init read_csv tp dp tr ttr = Inr ds
           \<and> len ds = 150 \<and> getitem float32 ds 0 = Inr (v, 0)"
proof -
  let ?ds = "\<lparr>targets_file = t, data_dir = d, transform = tr, target_transform = ttr\<rparr>"
  have made: "init read_csv tp dp tr ttr = Inr ?ds"
    using assms(1,2) by (simp add: init_def)
  have nd: "length (rows d) = 150" and nt: "length (rows t) = 150"
    using assms(3,4) by (simp_all add: shape_def)
  have size: "len ?ds = 150" using nt by (simp add: len_def)
  have x: "iloc d 0 = Inr [5.1, 3.5, 1.4, 0.2]"
    using nd assms(5) by (simp add: iloc_def)
  have y: "iloc t 0 = Inr [0]"
    using nt assms(6) by (simp add: iloc_def)
  have "getitem float32 ?ds 0 = Inr (v, 0)"
    using x y assms(7) by (simp add: getitem_def)
  with made size show ?thesis by blast
qed

theorem iris_end_to_end_witness:
  "\<exists>ds. init files ''Iris/targets.csv'' ''Iris/data.csv'' (None :: unit option) None = Inr ds
     \<and> len ds = 150 \<and> getitem Some ds 0 = Inr ([5.1, 3.5, 1.4, 0.2], 0)"
proof -
  have d: "files ''Iris/data.csv'' = Inr iris_x150" by (simp add: files_def)
  have t: "files ''Iris/targets.csv'' = Inr iris_y150" by (simp add: files_def)
  have sd: "shape iris_x150 = (150, 4)"
    by (simp add: shape_def iris_x150_def iris_columns_def)
  have st: "shape iris_y150 = (150, 1)"
    by (simp add: shape_def iris_y150_def)
  have x: "rows iris_x150 ! 0 = [5.1, 3.5, 1.4, 0.2]" by (simp add: iris_x150_def)
  have y: "rows iris_y150 ! 0 = [0]" by (simp add: iris_y150_def nth_append)
  have c: "to_numpy Some [5.1, 3.5, 1.4, 0.2 :: real] = Inr [5.1, 3.5, 1.4, 0.2]"
    by simp
  from iris_end_to_end [where read_csv = files and dp = "''Iris/data.csv''"
      and tp = "''Iris/targets.csv''", OF d t sd st x y c]
  show ?thesis .
qed

subsection \<open>No mutation\<close>

lemma len_m_run: "len_m self = (Inr (len self), self)"
  by (simp add: len_m_def and_then_def attribute_def returns_def len_def)

lemma getitem_m_run: "getitem_m f idx self = (getitem f self idx, self)"
  by (simp add: getitem_m_def getitem_def and_then_def attribute_def library_def
      returns_def split: sum.splits)

lemma init_m_run:
  assumes "init read_csv tp dp tr ttr = Inr ds"
  shows "init_m read_csv tp dp tr ttr self = (Inr (), ds)"
  using assms
  by (auto simp: init_m_def init_def and_then_def library_def assign_def
      split: sum.splits)

lemma call_method_object: "snd (call_method f c self) = self"
  by (cases c)
    (simp_all add: call_method_def and_then_def returns_def len_m_run getitem_m_run
      split: sum.splits)

lemma run_unfolded:
  "run f cs self = (map (\<lambda>c. fst (call_method f c self)) cs, self)"
proof (induction cs)
  case Nil
  show ?case by simp
next
  case (Cons c cs)
  obtain r where "call_method f c self = (r, self)"
    using call_method_object [of f c self] by (metis prod.collapse)
  then show ?case
    by (simp add: Cons.IH)
qed

text \<open>
  C8. Neither method changes the object: \<^verbatim>\<open>__len__\<close> and \<^verbatim>\<open>__getitem__\<close>, run as they
  are written, leave the object they were given, and so does any sequence of calls of
  them, with the feature table and the label table as they were. They answer as the
  functions of the object above, and an indexed access made after any such sequence
  gives what it gives on the object at the start.
\<close>

theorem methods_leave_object_unchanged:
  "snd (len_m self) = self
   \<and> snd (getitem_m f idx self) = self
   \<and> snd (run f cs self) = self
   \<and> data_dir (snd (run f cs self)) = data_dir self
   \<and> targets_file (snd (run f cs self)) = targets_file self
   \<and> fst (len_m self) = Inr (len self)
   \<and> fst (getitem_m f idx self) = getitem f self idx
   \<and> fst (getitem_m f idx (snd (run f cs self))) = fst (getitem_m f idx self)"
  by (simp add: run_unfolded len_m_run getitem_m_run)

subsection \<open>The tables written and read again\<close>




subsection \<open>The split\<close>

declare excess.simps [simp del]

lemma excess_small: "k < 2 ^ 53 \<Longrightarrow> excess k = 0"
  by (subst excess.simps) simp

lemma round53_small: "k < 2 ^ 53 \<Longrightarrow> round53 k = k"
  by (simp add: round53_def excess_small)

lemma excess_le: "k < 2 ^ (53 + m) \<Longrightarrow> excess k \<le> m"
proof (induction m arbitrary: k)
  case 0
  then show ?case by (simp add: excess_small)
next
  case (Suc m)
  show ?case
  proof (cases "k < 2 ^ 53")
    case True
    then show ?thesis by (simp add: excess_small)
  next
    case False
    have "(2::nat) ^ (53 + Suc m) = 2 * 2 ^ (53 + m)"
      by (simp only: add_Suc_right power_Suc)
    with Suc.prems have "k < 2 * 2 ^ (53 + m)" by simp
    then have "k div 2 < 2 ^ (53 + m)" by linarith
    then have "excess (k div 2) \<le> m" by (rule Suc.IH)
    with False show ?thesis by (subst excess.simps) simp
  qed
qed

lemma excess_lower: "2 ^ 53 \<le> k \<Longrightarrow> 2 ^ (52 + excess k) \<le> k"
proof (induction k rule: excess.induct)
  case (1 k)
  from "1.prems" have nk: "\<not> k < 2 ^ 53" by simp
  have e: "excess k = Suc (excess (k div 2))"
    using nk by (subst excess.simps) simp
  show ?case
  proof (cases "k div 2 < 2 ^ 53")
    case True
    then have "excess (k div 2) = 0" by (rule excess_small)
    with e "1.prems" show ?thesis by simp
  next
    case False
    then have "2 ^ (52 + excess (k div 2)) \<le> k div 2"
      using "1.IH" nk by simp
    then have "2 * 2 ^ (52 + excess (k div 2)) \<le> 2 * (k div 2)" by simp
    also have "\<dots> \<le> k" by simp
    finally have "2 * 2 ^ (52 + excess (k div 2)) \<le> k" .
    moreover have "(2::nat) ^ (52 + excess k) = 2 * 2 ^ (52 + excess (k div 2))"
      by (simp only: e add_Suc_right power_Suc)
    ultimately show ?thesis by simp
  qed
qed




lemma round53_lower: "(k div 2 ^ excess k) * 2 ^ excess k \<le> round53 k"
  by (simp add: round53_def Let_def)

lemma round53_upper:
  "round53 k \<le> k \<or> (round53 k = (k div 2 ^ excess k + 1) * 2 ^ excess k
      \<and> 2 ^ excess k \<le> 2 * (k mod 2 ^ excess k))"
proof (cases "2 * (k mod 2 ^ excess k) < 2 ^ excess k
    \<or> (2 * (k mod 2 ^ excess k) = 2 ^ excess k \<and> even (k div 2 ^ excess k))")
  case True
  then have "round53 k = (k div 2 ^ excess k) * 2 ^ excess k"
    by (simp add: round53_def Let_def)
  then have "round53 k \<le> k" by simp
  then show ?thesis ..
next
  case False
  then have "round53 k = (k div 2 ^ excess k + 1) * 2 ^ excess k"
    by (simp add: round53_def Let_def)
  moreover from False have "2 ^ excess k \<le> 2 * (k mod 2 ^ excess k)" by simp
  ultimately show ?thesis by blast
qed


lemma double_08_floor:
  assumes "n < 2 ^ 50"
  shows "round53 (3602879701896397 * n) div 2 ^ 52 = (4 * n) div 5"
proof -
  define P where "P = 3602879701896397 * n"
  define k where "k = (4 * n) div 5"
  define j where "j = (4 * n) mod 5"
  define t :: nat where "t = 2 ^ excess P"
  define R where "R = round53 P"
  have n: "n < 1125899906842624" using assms by simp
  have kj: "4 * n = 5 * k + j" and j: "j < 5" by (simp_all add: k_def j_def)
  have P: "P = 3602879701896397 * n" by (rule P_def)
  have "P < 2 ^ (53 + 49)" using n by (simp add: P)
  then have "excess P \<le> 49" by (rule excess_le)
  then have "excess P \<le> 52" by simp
  then have "(2::nat) ^ excess P dvd 2 ^ 52" by (rule le_imp_power_dvd)
  then have dvdM: "t dvd 4503599627370496" by (simp add: t_def)
  have t0: "0 < t" by (simp add: t_def)
  have split: "(P div t) * t + P mod t = P" by simp
  have "5 * P = 4503599627370496 * (4 * n) + n" by (simp add: P)
  then have "5 * P = 4503599627370496 * (5 * k + j) + n" by (simp only: kj)
  then have P5: "5 * P = 5 * (k * 4503599627370496) + j * 4503599627370496 + n"
    by (simp add: algebra_simps)
  have kP: "k * 4503599627370496 \<le> P" using P5 by linarith
  have Pk: "P < k * 4503599627370496 + 4503599627370496" using P5 j n by linarith
  have lower: "k * 4503599627370496 \<le> R"
  proof -
    from dvdM have "t dvd k * 4503599627370496" by (rule dvd_mult)
    then have "k * 4503599627370496 = (k * 4503599627370496 div t) * t" by simp
    also have "\<dots> \<le> (P div t) * t"
      using kP by (intro mult_le_mono1 div_le_mono)
    also have "\<dots> \<le> R" unfolding R_def t_def by (rule round53_lower)
    finally show ?thesis .
  qed
  have upper: "R < k * 4503599627370496 + 4503599627370496"
  proof -
    from round53_upper [of P]
    consider "R \<le> P" | "R = (P div t + 1) * t" "t \<le> 2 * (P mod t)"
      unfolding R_def t_def by blast
    then show ?thesis
    proof cases
      case 1
      with Pk show ?thesis by linarith
    next
      case 2
      have "excess P \<noteq> 0"
      proof
        assume "excess P = 0"
        then have "t = 1" by (simp add: t_def)
        with 2(2) show False by simp
      qed
      then have "2 ^ 53 \<le> P"
      proof (rule contrapos_np)
        assume "\<not> 2 ^ 53 \<le> P"
        then have "P < 2 ^ 53" by (simp only: not_le)
        then show "excess P = 0" by (rule excess_small)
      qed
      then have "2 ^ (52 + excess P) \<le> P" by (rule excess_lower)
      then have tP: "4503599627370496 * t \<le> P" by (simp add: t_def power_add)
      from 2(1) have "R = (P div t) * t + t" by simp
      with split 2(2) have "2 * R \<le> 2 * P + t" by linarith
      moreover have "4503599627370496 * t \<le> 3602879701896397 * n"
        using tP P by simp
      ultimately show ?thesis using P5 j n by linarith
    qed
  qed
  from lower upper have "R div 4503599627370496 = k"
    by (intro div_nat_eqI) (simp_all add: mult.commute)
  then show ?thesis by (simp add: R_def P_def k_def)
qed


lemma train_size_floor:
  assumes "n < 2 ^ 50"
  shows "train_size n = Inr ((4 * n) div 5)"
proof -
  from assms have small: "n < 2 ^ 53" by simp
  then have m: "round53 n = n" by (rule round53_small)
  from small have "\<not> (2::nat) ^ 1024 \<le> n" by simp
  then have "float_of_int n = Inr n" by (simp add: float_of_int_def m)
  then show ?thesis
    using double_08_floor [OF assms] by (simp add: train_size_def)
qed

lemma floor_four_fifths: "\<lfloor>0.8 * real n\<rfloor> = int ((4 * n) div 5)"
proof -
  have "0.8 * real n = real (4 * n) / real 5" by simp
  then show ?thesis by (simp only: floor_divide_of_nat_eq)
qed

lemma length_of_permutation:
  assumes "distinct perm" and "set perm = {0..<n}"
  shows "length perm = n"
  using assms distinct_card [of perm] by simp

lemma reversed_order: "distinct (reversed n)" "set (reversed n) = {0..<n}"
  by (simp_all add: reversed_def)

text \<open>
  C7, as the code has it. With the notebook's ratio 0.8 and fewer than \<open>2 ^ 50\<close>
  records, whatever the random order of the \<open>N\<close> indices, the two index subsets have
  \<open>\<lfloor>0.8 * N\<rfloor>\<close> and \<open>N - \<lfloor>0.8 * N\<rfloor>\<close> entries, share none, and together are all of
  \<open>0, ..., N - 1\<close>; for \<open>N = 150\<close> they have 120 and 30 entries.
\<close>

theorem split_partitions_indices:
  assumes "len ds < 2 ^ 50"
    and "distinct perm" and "set perm = {0..<len ds}"
  shows "\<exists>train test. train_test_split perm ds = Inr (train, test)
           \<and> int (length train) = \<lfloor>0.8 * real (len ds)\<rfloor>
           \<and> int (length test) = int (len ds) - \<lfloor>0.8 * real (len ds)\<rfloor>
           \<and> set train \<inter> set test = {}
           \<and> set train \<union> set test = {0..<len ds}
           \<and> (len ds = 150 \<longrightarrow> length train = 120 \<and> length test = 30)"
proof -
  define a where "a = (4 * len ds) div 5"
  define train where "train = take a perm"
  define test where "test = drop a perm"
  have n: "length perm = len ds"
    using assms(2,3) by (rule length_of_permutation)
  have a_le: "a \<le> len ds" by (simp add: a_def)
  have ts: "train_size (len ds) = Inr a"
    unfolding a_def using assms(1) by (rule train_size_floor)
  have "nat (int (len ds) - int a) = len ds - a" by simp
  then have "take (nat (int (len ds) - int a)) (drop a perm) = drop a perm"
    using n by simp
  then have split: "train_test_split perm ds = Inr (train, test)"
    by (simp add: train_test_split_def ts random_split_def train_def test_def)
  have l1: "length train = a" using n a_le by (simp add: train_def)
  have l2: "length test = len ds - a" using n by (simp add: test_def)
  have fl: "\<lfloor>0.8 * real (len ds)\<rfloor> = int a"
    unfolding a_def by (rule floor_four_fifths)
  have s1: "int (length train) = \<lfloor>0.8 * real (len ds)\<rfloor>" using l1 fl by simp
  have s2: "int (length test) = int (len ds) - \<lfloor>0.8 * real (len ds)\<rfloor>"
    using l2 fl a_le by simp
  have disjoint: "set train \<inter> set test = {}"
    unfolding train_def test_def
    using assms(2) by (rule set_take_disj_set_drop_if_distinct) simp
  have "set train \<union> set test = set (take a perm @ drop a perm)"
    unfolding train_def test_def by (simp only: set_append)
  also have "\<dots> = set perm" by (simp only: append_take_drop_id)
  finally have cover: "set train \<union> set test = {0..<len ds}"
    using assms(3) by simp
  have sizes: "length train = 120 \<and> length test = 30" if "len ds = 150"
    using that l1 l2 by (simp add: a_def)
  from split s1 s2 disjoint cover sizes show ?thesis by blast
qed

theorem split_partitions_indices_witness:
  "len iris150 = 150
   \<and> (\<exists>train test. train_test_split (reversed 150) iris150 = Inr (train, test)
        \<and> length train = 120 \<and> length test = 30
        \<and> set train \<inter> set test = {}
        \<and> set train \<union> set test = {0..<150})"
proof -
  have n: "len iris150 = 150"
    by (simp add: len_def iris150_def iris_y150_def)
  have small: "len iris150 < 2 ^ 50" by (simp add: n)
  have d: "distinct (reversed 150)" by (rule reversed_order)
  have c: "set (reversed 150) = {0..<len iris150}"
    unfolding n by (rule reversed_order)
  from split_partitions_indices [OF small d c] n show ?thesis by auto
qed

text \<open>
  The claim as it is written fails: for the object of \<open>2 ^ 51 + 3\<close> records the double
  product rounds up, and the first subset has one entry more than \<open>\<lfloor>0.8 * N\<rfloor>\<close>.
\<close>

theorem split_sizes_counterexample:
  "len iris_big = 2251799813685251
   \<and> distinct (reversed 2251799813685251)
   \<and> set (reversed 2251799813685251) = {0..<len iris_big}
   \<and> map_sum id (map_prod length length)
        (train_test_split (reversed 2251799813685251) iris_big)
       = Inr (1801439850948201, 450359962737050)
   \<and> \<lfloor>0.8 * real (len iris_big)\<rfloor> = 1801439850948200"
proof -
  have n: "len iris_big = 2251799813685251"
    by (simp add: len_def iris_big_def)
  have ts: "train_size 2251799813685251 = Inr 1801439850948201"
    by (simp add: train_size_def float_of_int_def round53_def excess.simps Let_def)
  have l: "length (reversed 2251799813685251) = 2251799813685251"
    using reversed_order [of 2251799813685251]
    by (intro length_of_permutation)
  have sizes: "map_sum id (map_prod length length)
        (train_test_split (reversed 2251799813685251) iris_big)
       = Inr (1801439850948201, 450359962737050)"
    by (simp add: train_test_split_def n ts random_split_def l)
  have fl: "\<lfloor>0.8 * real (len iris_big)\<rfloor> = 1801439850948200"
    by (simp add: floor_four_fifths n)
  from n sizes fl reversed_order [of 2251799813685251] show ?thesis
    by (simp only: n)
qed

end
